theory Spec2Isabelle
  imports Main
begin

section \<open>The git tool server: dispatcher, path guard and command construction\<close>

text \<open>
  A shallow embedding of \<^verbatim>\<open>src/git/src/mcp_server_git/server.py\<close>. The server calls
  three collaborators whose code is not part of the repository: \<^verbatim>\<open>pathlib\<close> (paths),
  GitPython (\<^verbatim>\<open>git.Repo\<close> and the objects reached from it) and the MCP session. They
  are the fields of the record \<open>world\<close> below: each field is the answer the
  collaborator gives to one call, and every function of the server takes the world as
  its first argument. What the server asks of the collaborators is recorded as a list of
  events, returned next to the result.
\<close>

subsection \<open>Strings\<close>

definition nl :: string where
  "nl = [CHR 0x0A]"

definition sq :: string where
  "sq = [CHR 0x27]"

text \<open>\<^verbatim>\<open>s.startswith(prefix)\<close>.\<close>

fun startswith :: "string \<Rightarrow> string \<Rightarrow> bool" where
  "startswith s [] = True"
| "startswith [] (c # cs) = False"
| "startswith (x # xs) (c # cs) = (x = c \<and> startswith xs cs)"

text \<open>\<^verbatim>\<open>str(n)\<close> for an integer, as an f-string renders it.\<close>

fun str_nat :: "nat \<Rightarrow> string" where
  "str_nat n =
     (if n < 10 then [''0123456789'' ! n]
      else str_nat (n div 10) @ [''0123456789'' ! (n mod 10)])"

definition str_int :: "int \<Rightarrow> string" where
  "str_int i = (if i < 0 then ''-'' @ str_nat (nat (- i)) else str_nat (nat i))"

text \<open>
  Truthiness of an optional string or list: \<^verbatim>\<open>if x:\<close> holds when \<open>x\<close> is neither
  \<^verbatim>\<open>None\<close> nor empty. \<open>truthy x\<close> is the value in that case.
\<close>

fun truthy :: "'a list option \<Rightarrow> 'a list option" where
  "truthy None = None"
| "truthy (Some xs) = (if xs = [] then None else Some xs)"

text \<open>\<^verbatim>\<open>sep.join(xs)\<close>.\<close>

fun join :: "string \<Rightarrow> string list \<Rightarrow> string" where
  "join sep [] = []"
| "join sep [x] = x"
| "join sep (x # y # ys) = x @ sep @ join sep (y # ys)"

text \<open>An f-string renders \<^verbatim>\<open>None\<close> as the word.\<close>

fun fmt_opt :: "string option \<Rightarrow> string" where
  "fmt_opt None = ''None''"
| "fmt_opt (Some s) = s"

subsection \<open>Errors, paths and the objects of the git library\<close>

datatype error =
    KeyError string
  | TypeError string
  | ValueError string
  | BadName string
  | IndexError string
  | OSError string
  | RuntimeError string
  | InvalidGitRepositoryError string
  | NoSuchPathError string
  | GitCommandError string
  | UnicodeDecodeError
  | SessionError string

text \<open>
  Each constructor stands for the exception class and its subclasses; the string is the
  message.
\<close>

text \<open>A \<^verbatim>\<open>pathlib.Path\<close>, by the string it was built from.\<close>

datatype path = Path string

text \<open>An open \<^verbatim>\<open>git.Repo\<close>, by the path string it was opened at.\<close>

datatype repo = Repo string

datatype actor = Actor string string

record commit =
  hexsha :: string
  author_repr :: string
  authored_str :: string
  authored_repr :: string
  message :: string
  parents :: "string list"

record reference =
  ref_name :: string

datatype diff_text = DiffNone | DiffBytes "nat list" | DiffStr string

record diff_entry =
  a_path :: "string option"
  b_path :: "string option"
  diff :: diff_text

text \<open>The two sides of \<^verbatim>\<open>x.diff(y, create_patch=True)\<close>: a commit or \<^verbatim>\<open>git.NULL_TREE\<close>.\<close>

datatype diff_side = CommitObj string | NULL_TREE

text \<open>The keyword arguments \<^verbatim>\<open>git_log\<close> builds for \<^verbatim>\<open>repo.iter_commits\<close>.\<close>

record log_kwargs =
  kw_max_count :: int
  kw_since :: "string option"
  kw_until :: "string option"
  kw_rev :: "string option"
  kw_paths :: "string list option"

subsection \<open>The collaborators\<close>

record world =
  path_str :: "path \<Rightarrow> string"
  resolve :: "path \<Rightarrow> error + string list"
  open_repo :: "string \<Rightarrow> error + repo"
  rev_parse :: "repo \<Rightarrow> string \<Rightarrow> error + unit"
  git_run :: "repo \<Rightarrow> string \<Rightarrow> string list \<Rightarrow> error + string"
  index_commit :: "repo \<Rightarrow> string \<Rightarrow> actor option \<Rightarrow> error + commit"
  index_reset :: "repo \<Rightarrow> string list option \<Rightarrow> error + unit"
  iter_commits :: "repo \<Rightarrow> log_kwargs \<Rightarrow> error + commit list"
  references :: "repo \<Rightarrow> string \<Rightarrow> error + reference"
  active_branch :: "repo \<Rightarrow> error + reference"
  create_head :: "repo \<Rightarrow> string \<Rightarrow> reference \<Rightarrow> error + unit"
  lookup_commit :: "repo \<Rightarrow> string \<Rightarrow> error + commit"
  diff_objects :: "repo \<Rightarrow> diff_side \<Rightarrow> diff_side \<Rightarrow> error + diff_entry list"
  repr_str :: "string \<Rightarrow> string"
  decode_utf8 :: "nat list \<Rightarrow> error + string"
  is_server_session :: bool
  has_roots_capability :: bool
  list_roots :: "error + string list"

text \<open>
  \<^item> \<open>path_str w p\<close> is \<^verbatim>\<open>str(p)\<close>;
  \<^item> \<open>resolve w p\<close> is the outcome of \<^verbatim>\<open>p.resolve()\<close>: the tuple \<^verbatim>\<open>parts\<close> of the
    canonical path, or the exception it raises, of whatever class;
  \<^item> \<open>open_repo w s\<close> is \<^verbatim>\<open>git.Repo(s)\<close>;
  \<^item> \<open>git_run w r c args\<close> is the output of the git subcommand \<open>c\<close> run with the
    argument list \<open>args\<close> in \<open>r\<close> (\<^verbatim>\<open>repo.git.c(*args)\<close>);
  \<^item> the remaining fields of the repository are the library calls of the same names;
  \<^item> \<open>repr_str\<close> is Python's \<^verbatim>\<open>repr\<close> on a string, \<open>decode_utf8\<close> is
    \<^verbatim>\<open>bytes.decode('utf-8')\<close>;
  \<^item> \<open>is_server_session\<close>, \<open>has_roots_capability\<close> and \<open>list_roots\<close> describe the
    session of the request: its class, the answer of \<^verbatim>\<open>check_client_capability\<close> for
    the roots capability, and the paths \<^verbatim>\<open>root.uri.path\<close> of the roots it lists.
\<close>

subsection \<open>Results with a trace of the calls made\<close>

datatype event =
    OpenRepo string
  | RevParse string
  | Git string "string list"
  | IndexCommit string "actor option"
  | IndexReset "string list option"
  | IterCommits log_kwargs
  | RefLookup string
  | ActiveBranch
  | CreateHead string string
  | LookupCommit string
  | DiffObjects diff_side diff_side
  | ListRoots

type_synonym 'a run = "(error + 'a) \<times> event list"

definition ret :: "'a \<Rightarrow> 'a run" where
  "ret x = (Inr x, [])"

definition raise_err :: "error \<Rightarrow> 'a run" where
  "raise_err e = (Inl e, [])"

definition call :: "event \<Rightarrow> error + 'a \<Rightarrow> 'a run" where
  "call ev r = (r, [ev])"

definition then_run :: "'a run \<Rightarrow> ('a \<Rightarrow> 'b run) \<Rightarrow> 'b run" where
  "then_run m f =
     (case m of
        (Inl e, t) \<Rightarrow> (Inl e, t)
      | (Inr x, t) \<Rightarrow> (case f x of (r, t') \<Rightarrow> (r, t @ t')))"

subsection \<open>The path guard\<close>

text \<open>
  \<^verbatim>\<open>PurePath.relative_to\<close> on the parts of two paths: the parts left after the parts of
  \<open>other\<close>, and \<open>None\<close> (a \<^verbatim>\<open>ValueError\<close>) when the parts of \<open>other\<close> are not the first
  parts of the path.
\<close>

fun relative_to :: "string list \<Rightarrow> string list \<Rightarrow> string list option" where
  "relative_to ps [] = Some ps"
| "relative_to [] (q # qs) = None"
| "relative_to (p # ps) (q # qs) = (if p = q then relative_to ps qs else None)"

definition invalid_path :: "world \<Rightarrow> path \<Rightarrow> error" where
  "invalid_path w repo_path = ValueError (''Invalid path: '' @ path_str w repo_path)"

definition outside_allowed :: "world \<Rightarrow> path \<Rightarrow> path \<Rightarrow> error" where
  "outside_allowed w repo_path allowed_repository =
     ValueError (''Repository path '' @ sq @ path_str w repo_path @ sq @
       '' is outside the allowed repository '' @ sq @ path_str w allowed_repository @ sq)"

text \<open>
  The \<^verbatim>\<open>try\<close> block that resolves the two paths, the candidate first: the first
  exception raised, or both canonical paths.
\<close>

definition resolve_both :: "world \<Rightarrow> path \<Rightarrow> path \<Rightarrow> error + string list \<times> string list" where
  "resolve_both w repo_path allowed =
     (case resolve w repo_path of
        Inl e \<Rightarrow> Inl e
      | Inr resolved_repo \<Rightarrow>
          (case resolve w allowed of
             Inl e \<Rightarrow> Inl e
           | Inr resolved_allowed \<Rightarrow> Inr (resolved_repo, resolved_allowed)))"

text \<open>
  The clause \<^verbatim>\<open>except (OSError, RuntimeError)\<close>: an exception of another class is not
  caught and leaves \<^verbatim>\<open>validate_repo_path\<close> as it is.
\<close>

fun resolve_caught :: "error \<Rightarrow> bool" where
  "resolve_caught (OSError _) = True"
| "resolve_caught (RuntimeError _) = True"
| "resolve_caught _ = False"

definition validate_repo_path :: "world \<Rightarrow> path \<Rightarrow> path option \<Rightarrow> error + unit" where
  "validate_repo_path w repo_path allowed_repository =
     (case allowed_repository of
        None \<Rightarrow> Inr ()
      | Some allowed \<Rightarrow>
          (case resolve_both w repo_path allowed of
             Inl e \<Rightarrow>
               (if resolve_caught e then Inl (invalid_path w repo_path) else Inl e)
           | Inr (resolved_repo, resolved_allowed) \<Rightarrow>
               (case relative_to resolved_repo resolved_allowed of
                  None \<Rightarrow> Inl (outside_allowed w repo_path allowed)
                | Some _ \<Rightarrow> Inr ())))"

subsection \<open>The operations\<close>

text \<open>
  \<^verbatim>\<open>repo.git.<command>(*args)\<close>: one run of the git executable, with the argument list
  as it is passed.
\<close>

definition git_cmd :: "world \<Rightarrow> repo \<Rightarrow> string \<Rightarrow> string list \<Rightarrow> string run" where
  "git_cmd w repo command args = call (Git command args) (git_run w repo command args)"

text \<open>\<^verbatim>\<open>if paths: args.extend(["--", *paths])\<close>.\<close>

definition extend_paths :: "string list \<Rightarrow> string list option \<Rightarrow> string list" where
  "extend_paths args paths =
     (case truthy paths of None \<Rightarrow> args | Some ps \<Rightarrow> args @ ''--'' # ps)"

definition git_status :: "world \<Rightarrow> repo \<Rightarrow> string list option \<Rightarrow> string run" where
  "git_status w repo paths = git_cmd w repo ''status'' (extend_paths [] paths)"

definition unified :: "int \<Rightarrow> string" where
  "unified context_lines = ''--unified='' @ str_int context_lines"

definition git_diff_unstaged ::
  "world \<Rightarrow> repo \<Rightarrow> int \<Rightarrow> bool \<Rightarrow> string list option \<Rightarrow> string run" where
  "git_diff_unstaged w repo context_lines ignore_whitespace paths =
     git_cmd w repo ''diff''
       (extend_paths
          ([unified context_lines] @ (if ignore_whitespace then [''-w''] else []))
          paths)"

definition git_diff_staged ::
  "world \<Rightarrow> repo \<Rightarrow> int \<Rightarrow> bool \<Rightarrow> string list option \<Rightarrow> string run" where
  "git_diff_staged w repo context_lines ignore_whitespace paths =
     git_cmd w repo ''diff''
       (extend_paths
          ([unified context_lines, ''--cached''] @ (if ignore_whitespace then [''-w''] else []))
          paths)"

text \<open>The argument list \<^verbatim>\<open>git_diff\<close> builds once its checks have passed.\<close>

definition diff_args ::
  "string \<Rightarrow> string option \<Rightarrow> bool \<Rightarrow> int \<Rightarrow> bool \<Rightarrow> string list option \<Rightarrow> string list" where
  "diff_args target base merge_base context_lines ignore_whitespace paths =
     extend_paths
       ([unified context_lines] @ (if ignore_whitespace then [''-w''] else []) @
        (case truthy base of
           Some b \<Rightarrow> (if merge_base then [b @ ''...'' @ target] else [b, target])
         | None \<Rightarrow> [target]))
       paths"

definition invalid_target :: "string \<Rightarrow> error" where
  "invalid_target target =
     BadName (''Invalid target: '' @ sq @ target @ sq @ '' - cannot start with '' @ sq @ ''-'' @ sq)"

definition invalid_base :: "string \<Rightarrow> error" where
  "invalid_base base =
     BadName (''Invalid base: '' @ sq @ base @ sq @ '' - cannot start with '' @ sq @ ''-'' @ sq)"

definition git_diff ::
  "world \<Rightarrow> repo \<Rightarrow> string \<Rightarrow> string option \<Rightarrow> bool \<Rightarrow> int \<Rightarrow> bool \<Rightarrow> string list option
     \<Rightarrow> string run" where
  "git_diff w repo target base merge_base context_lines ignore_whitespace paths =
     (if startswith target ''-'' then raise_err (invalid_target target)
      else
        (case (case truthy base of
                 Some b \<Rightarrow> if startswith b ''-'' then Some (invalid_base b) else None
               | None \<Rightarrow> None) of
           Some e \<Rightarrow> raise_err e
         | None \<Rightarrow>
             then_run (call (RevParse target) (rev_parse w repo target)) (\<lambda>_.
             then_run (case truthy base of
                         Some b \<Rightarrow> call (RevParse b) (rev_parse w repo b)
                       | None \<Rightarrow> ret ()) (\<lambda>_.
             git_cmd w repo ''diff''
               (diff_args target base merge_base context_lines ignore_whitespace paths)))))"

text \<open>The \<^verbatim>\<open>author\<close> that \<^verbatim>\<open>git_commit\<close> passes to \<^verbatim>\<open>repo.index.commit\<close>.\<close>

definition commit_author :: "string option \<Rightarrow> string option \<Rightarrow> actor option" where
  "commit_author author_name author_email =
     (case truthy author_name of
        None \<Rightarrow> None
      | Some n \<Rightarrow> (case truthy author_email of None \<Rightarrow> None | Some e \<Rightarrow> Some (Actor n e)))"

definition git_commit ::
  "world \<Rightarrow> repo \<Rightarrow> string \<Rightarrow> string option \<Rightarrow> string option \<Rightarrow> string run" where
  "git_commit w repo msg author_name author_email =
     (let author = commit_author author_name author_email in
      then_run (call (IndexCommit msg author) (index_commit w repo msg author)) (\<lambda>c.
      ret (''Changes committed successfully with hash '' @ hexsha c)))"

definition git_add :: "world \<Rightarrow> repo \<Rightarrow> string list \<Rightarrow> string run" where
  "git_add w repo files =
     then_run (if files = [''.''] then git_cmd w repo ''add'' [''.'']
               else git_cmd w repo ''add'' (''--'' # files)) (\<lambda>_.
     ret ''Files staged successfully'')"

definition git_reset :: "world \<Rightarrow> repo \<Rightarrow> string list option \<Rightarrow> string run" where
  "git_reset w repo paths =
     (case truthy paths of
        Some ps \<Rightarrow>
          then_run (call (IndexReset (Some ps)) (index_reset w repo (Some ps))) (\<lambda>_.
          ret (''Reset '' @ str_nat (length ps) @ '' files''))
      | None \<Rightarrow>
          then_run (call (IndexReset None) (index_reset w repo None)) (\<lambda>_.
          ret ''All staged changes reset''))"

definition log_entry :: "world \<Rightarrow> commit \<Rightarrow> string" where
  "log_entry w c =
     ''Commit: '' @ repr_str w (hexsha c) @ nl @
     ''Author: '' @ author_repr c @ nl @
     ''Date: '' @ authored_str c @ nl @
     ''Message: '' @ repr_str w (message c) @ nl"

definition git_log ::
  "world \<Rightarrow> repo \<Rightarrow> int \<Rightarrow> string option \<Rightarrow> string list option \<Rightarrow> string option \<Rightarrow> string option
     \<Rightarrow> string list run" where
  "git_log w repo max_count revision_range paths start_timestamp end_timestamp =
     (let kwargs = \<lparr>kw_max_count = max_count,
                     kw_since = truthy start_timestamp,
                     kw_until = truthy end_timestamp,
                     kw_rev = truthy revision_range,
                     kw_paths = truthy paths\<rparr> in
      then_run (call (IterCommits kwargs) (iter_commits w repo kwargs)) (\<lambda>commits.
      ret (map (log_entry w) commits)))"

definition git_create_branch ::
  "world \<Rightarrow> repo \<Rightarrow> string \<Rightarrow> string option \<Rightarrow> string run" where
  "git_create_branch w repo branch_name base_branch =
     then_run (case truthy base_branch of
                 Some b \<Rightarrow> call (RefLookup b) (references w repo b)
               | None \<Rightarrow> call ActiveBranch (active_branch w repo)) (\<lambda>base.
     then_run (call (CreateHead branch_name (ref_name base))
                 (create_head w repo branch_name base)) (\<lambda>_.
     ret (''Created branch '' @ sq @ branch_name @ sq @ '' from '' @ sq @ ref_name base @ sq)))"

definition invalid_branch_name :: "string \<Rightarrow> error" where
  "invalid_branch_name branch_name =
     BadName (''Invalid branch name: '' @ sq @ branch_name @ sq @
       '' - cannot start with '' @ sq @ ''-'' @ sq)"

definition git_checkout :: "world \<Rightarrow> repo \<Rightarrow> string \<Rightarrow> string run" where
  "git_checkout w repo branch_name =
     (if startswith branch_name ''-'' then raise_err (invalid_branch_name branch_name)
      else
        then_run (call (RevParse branch_name) (rev_parse w repo branch_name)) (\<lambda>_.
        then_run (git_cmd w repo ''checkout'' [branch_name]) (\<lambda>_.
        ret (''Switched to branch '' @ sq @ branch_name @ sq))))"

text \<open>The loop of \<^verbatim>\<open>git_show\<close> over the entries of the diff; \<open>output\<close> is the list it appends to.\<close>

fun show_entries :: "world \<Rightarrow> diff_entry list \<Rightarrow> string list \<Rightarrow> error + string list" where
  "show_entries w [] output = Inr output"
| "show_entries w (d # ds) output =
     (let output1 = output @
            [nl @ ''--- '' @ fmt_opt (a_path d) @ nl @ ''+++ '' @ fmt_opt (b_path d) @ nl] in
      case diff d of
        DiffNone \<Rightarrow> show_entries w ds output1
      | DiffBytes bs \<Rightarrow>
          (case decode_utf8 w bs of
             Inl e \<Rightarrow> Inl e
           | Inr s \<Rightarrow> show_entries w ds (output1 @ [s]))
      | DiffStr s \<Rightarrow> show_entries w ds (output1 @ [s]))"

definition show_header :: "world \<Rightarrow> commit \<Rightarrow> string" where
  "show_header w c =
     ''Commit: '' @ repr_str w (hexsha c) @ nl @
     ''Author: '' @ author_repr c @ nl @
     ''Date: '' @ authored_repr c @ nl @
     ''Message: '' @ repr_str w (message c) @ nl"

text \<open>The diff \<^verbatim>\<open>git_show\<close> asks for: receiver first, argument second.\<close>

definition show_sides :: "commit \<Rightarrow> diff_side \<times> diff_side" where
  "show_sides c =
     (case parents c of
        parent # _ \<Rightarrow> (CommitObj parent, CommitObj (hexsha c))
      | [] \<Rightarrow> (CommitObj (hexsha c), NULL_TREE))"

definition git_show :: "world \<Rightarrow> repo \<Rightarrow> string \<Rightarrow> string run" where
  "git_show w repo revision =
     then_run (call (LookupCommit revision) (lookup_commit w repo revision)) (\<lambda>c.
     then_run (case show_sides c of
                 (a, b) \<Rightarrow> call (DiffObjects a b) (diff_objects w repo a b)) (\<lambda>ds.
     (case show_entries w ds [show_header w c] of
        Inl e \<Rightarrow> raise_err e
      | Inr output \<Rightarrow> ret (concat output))))"

definition git_grep ::
  "world \<Rightarrow> repo \<Rightarrow> string \<Rightarrow> string option \<Rightarrow> string list option \<Rightarrow> bool \<Rightarrow> bool
     \<Rightarrow> string run" where
  "git_grep w repo pattern revision paths ignore_case line_numbers =
     git_cmd w repo ''grep''
       ((if ignore_case then [''-i''] else []) @
        (if line_numbers then [''-n''] else []) @
        [''-e'', pattern] @
        (case truthy revision of Some r \<Rightarrow> [r] | None \<Rightarrow> []) @
        [''--''] @
        (case truthy paths of Some ps \<Rightarrow> ps | None \<Rightarrow> []))"

text \<open>
  GitPython drops the arguments that are \<^verbatim>\<open>None\<close> before it runs the command (the
  source relies on it: "None value will be auto deleted by GitPython").
\<close>

fun drop_none :: "'a option list \<Rightarrow> 'a list" where
  "drop_none [] = []"
| "drop_none (None # xs) = drop_none xs"
| "drop_none (Some x # xs) = x # drop_none xs"

text \<open>The \<^verbatim>\<open>match branch_type\<close> of \<^verbatim>\<open>git_branch\<close>: the flag, or \<open>None\<close> for the last case.\<close>

definition branch_flag :: "string \<Rightarrow> string option option" where
  "branch_flag branch_type =
     (if branch_type = ''local'' then Some None
      else if branch_type = ''remote'' then Some (Some ''-r'')
      else if branch_type = ''all'' then Some (Some ''-a'')
      else None)"

definition git_branch ::
  "world \<Rightarrow> repo \<Rightarrow> string \<Rightarrow> string option \<Rightarrow> string option \<Rightarrow> string run" where
  "git_branch w repo branch_type contains not_contains =
     (let contains_sha = (case contains of
                            None \<Rightarrow> [None]
                          | Some c \<Rightarrow> [Some ''--contains'', Some c]);
          not_contains_sha = (case not_contains of
                                None \<Rightarrow> [None]
                              | Some c \<Rightarrow> [Some ''--no-contains'', Some c]) in
      case branch_flag branch_type of
        None \<Rightarrow> ret (''Invalid branch type: '' @ branch_type)
      | Some b_type \<Rightarrow>
          git_cmd w repo ''branch'' (drop_none (b_type # contains_sha @ not_contains_sha)))"

subsection \<open>The repository resolver\<close>

text \<open>
  The loop of \<^verbatim>\<open>by_roots\<close> over the advertised roots; \<open>repo_paths\<close> is the list it appends
  to. Only \<^verbatim>\<open>git.InvalidGitRepositoryError\<close> is caught.
\<close>

fun by_roots_loop :: "world \<Rightarrow> string list \<Rightarrow> string list \<Rightarrow> string list run" where
  "by_roots_loop w [] repo_paths = ret repo_paths"
| "by_roots_loop w (path # roots) repo_paths =
     (case open_repo w path of
        Inr _ \<Rightarrow>
          then_run (call (OpenRepo path) (Inr ())) (\<lambda>_.
          by_roots_loop w roots (repo_paths @ [path]))
      | Inl (InvalidGitRepositoryError _) \<Rightarrow>
          then_run (call (OpenRepo path) (Inr ())) (\<lambda>_.
          by_roots_loop w roots repo_paths)
      | Inl e \<Rightarrow> call (OpenRepo path) (Inl e))"

definition by_roots :: "world \<Rightarrow> string list run" where
  "by_roots w =
     (if \<not> is_server_session w then
        raise_err (TypeError ''server.request_context.session must be a ServerSession'')
      else if \<not> has_roots_capability w then ret []
      else
        then_run (call ListRoots (list_roots w)) (\<lambda>roots.
        by_roots_loop w roots []))"

definition by_commandline :: "world \<Rightarrow> path option \<Rightarrow> string list" where
  "by_commandline w repository =
     (case repository of Some r \<Rightarrow> [path_str w r] | None \<Rightarrow> [])"

definition list_repos :: "world \<Rightarrow> path option \<Rightarrow> string list run" where
  "list_repos w repository =
     (let cmd_repos = by_commandline w repository in
      then_run (by_roots w) (\<lambda>root_repos.
      ret (root_repos @ cmd_repos)))"

subsection \<open>The dispatcher\<close>

text \<open>
  The argument mapping of a request, one field per key the server reads. A field is
  \<open>None\<close> when the key is absent; a value has the type the tool's schema declares for it.
\<close>

record arguments =
  arg_repo_path :: "string option"
  arg_paths :: "string list option"
  arg_context_lines :: "int option"
  arg_ignore_whitespace :: "bool option"
  arg_target :: "string option"
  arg_base :: "string option"
  arg_merge_base :: "bool option"
  arg_message :: "string option"
  arg_author_name :: "string option"
  arg_author_email :: "string option"
  arg_files :: "string list option"
  arg_max_count :: "int option"
  arg_revision_range :: "string option"
  arg_start_timestamp :: "string option"
  arg_end_timestamp :: "string option"
  arg_branch_name :: "string option"
  arg_base_branch :: "string option"
  arg_revision :: "string option"
  arg_pattern :: "string option"
  arg_ignore_case :: "bool option"
  arg_line_numbers :: "bool option"
  arg_branch_type :: "string option"
  arg_contains :: "string option"
  arg_not_contains :: "string option"

text \<open>\<^verbatim>\<open>arguments[key]\<close>: a \<^verbatim>\<open>KeyError\<close> when the key is absent.\<close>

definition subscript :: "string \<Rightarrow> 'a option \<Rightarrow> 'a run" where
  "subscript key v = (case v of None \<Rightarrow> raise_err (KeyError key) | Some x \<Rightarrow> ret x)"

text \<open>\<^verbatim>\<open>arguments.get(key, default)\<close>.\<close>

definition get_default :: "'a option \<Rightarrow> 'a \<Rightarrow> 'a" where
  "get_default v d = (case v of None \<Rightarrow> d | Some x \<Rightarrow> x)"

definition DEFAULT_CONTEXT_LINES :: int where
  "DEFAULT_CONTEXT_LINES = 3"

text \<open>The \<^verbatim>\<open>match name\<close> of \<^verbatim>\<open>call_tool\<close>, on the repository already opened.\<close>

definition dispatch :: "world \<Rightarrow> repo \<Rightarrow> string \<Rightarrow> arguments \<Rightarrow> string list run" where
  "dispatch w repo name a =
     (if name = ''git_status'' then
        then_run (git_status w repo (arg_paths a)) (\<lambda>status.
        ret [''Repository status:'' @ nl @ status])
      else if name = ''git_diff_unstaged'' then
        then_run (git_diff_unstaged w repo
                    (get_default (arg_context_lines a) DEFAULT_CONTEXT_LINES)
                    (get_default (arg_ignore_whitespace a) False)
                    (arg_paths a)) (\<lambda>d.
        ret [''Unstaged changes:'' @ nl @ d])
      else if name = ''git_diff_staged'' then
        then_run (git_diff_staged w repo
                    (get_default (arg_context_lines a) DEFAULT_CONTEXT_LINES)
                    (get_default (arg_ignore_whitespace a) False)
                    (arg_paths a)) (\<lambda>d.
        ret [''Staged changes:'' @ nl @ d])
      else if name = ''git_diff'' then
        then_run (subscript ''target'' (arg_target a)) (\<lambda>target.
        then_run (git_diff w repo target (arg_base a)
                    (get_default (arg_merge_base a) False)
                    (get_default (arg_context_lines a) DEFAULT_CONTEXT_LINES)
                    (get_default (arg_ignore_whitespace a) False)
                    (arg_paths a)) (\<lambda>d.
        ret [''Diff with '' @ target @ '':'' @ nl @ d]))
      else if name = ''git_commit'' then
        then_run (subscript ''message'' (arg_message a)) (\<lambda>msg.
        then_run (git_commit w repo msg (arg_author_name a) (arg_author_email a)) (\<lambda>result.
        ret [result]))
      else if name = ''git_add'' then
        then_run (subscript ''files'' (arg_files a)) (\<lambda>files.
        then_run (git_add w repo files) (\<lambda>result.
        ret [result]))
      else if name = ''git_reset'' then
        then_run (git_reset w repo (arg_paths a)) (\<lambda>result.
        ret [result])
      else if name = ''git_log'' then
        then_run (git_log w repo
                    (get_default (arg_max_count a) 10)
                    (arg_revision_range a)
                    (arg_paths a)
                    (arg_start_timestamp a)
                    (arg_end_timestamp a)) (\<lambda>log.
        ret [''Commit history:'' @ nl @ join nl log])
      else if name = ''git_create_branch'' then
        then_run (subscript ''branch_name'' (arg_branch_name a)) (\<lambda>branch_name.
        then_run (git_create_branch w repo branch_name (arg_base_branch a)) (\<lambda>result.
        ret [result]))
      else if name = ''git_checkout'' then
        then_run (subscript ''branch_name'' (arg_branch_name a)) (\<lambda>branch_name.
        then_run (git_checkout w repo branch_name) (\<lambda>result.
        ret [result]))
      else if name = ''git_show'' then
        then_run (subscript ''revision'' (arg_revision a)) (\<lambda>revision.
        then_run (git_show w repo revision) (\<lambda>result.
        ret [result]))
      else if name = ''git_grep'' then
        then_run (subscript ''pattern'' (arg_pattern a)) (\<lambda>pattern.
        then_run (git_grep w repo pattern (arg_revision a) (arg_paths a)
                    (get_default (arg_ignore_case a) False)
                    (get_default (arg_line_numbers a) True)) (\<lambda>result.
        ret [result]))
      else if name = ''git_branch'' then
        then_run (git_branch w repo
                    (get_default (arg_branch_type a) ''local'')
                    (arg_contains a)
                    (arg_not_contains a)) (\<lambda>result.
        ret [result])
      else raise_err (ValueError (''Unknown tool: '' @ name)))"

definition call_tool :: "world \<Rightarrow> path option \<Rightarrow> string \<Rightarrow> arguments \<Rightarrow> string list run" where
  "call_tool w repository name a =
     then_run (subscript ''repo_path'' (arg_repo_path a)) (\<lambda>s.
     (let repo_path = Path s in
      case validate_repo_path w repo_path repository of
        Inl e \<Rightarrow> raise_err e
      | Inr _ \<Rightarrow>
          then_run (call (OpenRepo (path_str w repo_path))
                      (open_repo w (path_str w repo_path))) (\<lambda>repo.
          dispatch w repo name a)))"

subsection \<open>A small world for the examples\<close>

text \<open>
  One concrete set of answers of the collaborators, used to run the server on examples.
  Its file system has no symbolic link but \<^verbatim>\<open>/loop\<close>, which points to itself. The
  absolute paths used below have no \<^verbatim>\<open>.\<close> or \<^verbatim>\<open>..\<close> segment, so each resolves to its own
  segments, whether it exists or not (\<^verbatim>\<open>resolve\<close> is not strict); \<^verbatim>\<open>/loop\<close> raises
  \<^verbatim>\<open>RuntimeError\<close>, and a path with a null character raises \<^verbatim>\<open>ValueError\<close>. The
  directories \<^verbatim>\<open>/repos/proj\<close> and \<^verbatim>\<open>/repos/proj/sub\<close> are repositories,
  \<^verbatim>\<open>/tmp/scratch\<close>, \<^verbatim>\<open>/etc\<close> and \<^verbatim>\<open>/allowed\<close> are directories that are not, and no other
  path exists. The session advertises three roots.
\<close>

text \<open>The segments of a path string between slashes; \<open>seg\<close> is the segment being read.\<close>

fun path_segments :: "string \<Rightarrow> string \<Rightarrow> string list" where
  "path_segments [] seg = (if seg = [] then [] else [seg])"
| "path_segments (c # cs) seg =
     (if c = CHR ''/'' then (if seg = [] then [] else [seg]) @ path_segments cs []
      else path_segments cs (seg @ [c]))"

text \<open>The string \<^verbatim>\<open>/tmp/a\<close>, a null character, \<^verbatim>\<open>b\<close>.\<close>

definition demo_nul_path :: string where
  "demo_nul_path = ''/tmp/a'' @ [CHR 0x00] @ ''b''"

definition demo_root_commit :: commit where
  "demo_root_commit =
     \<lparr>hexsha = ''a1'', author_repr = ''<git.Actor \"dev <dev@example.org>\">'',
      authored_str = ''2024-01-15 14:30:25+00:00'', authored_repr = ''datetime(2024, 1, 15)'',
      message = ''initial'', parents = []\<rparr>"

definition demo_head_commit :: commit where
  "demo_head_commit =
     \<lparr>hexsha = ''c3'', author_repr = ''<git.Actor \"dev <dev@example.org>\">'',
      authored_str = ''2024-01-17 09:00:00+00:00'', authored_repr = ''datetime(2024, 1, 17)'',
      message = ''merge'', parents = [''b2'', ''b9'']\<rparr>"

definition demo_world :: world where
  "demo_world =
     \<lparr>path_str = (\<lambda>p. case p of Path s \<Rightarrow> s),
      resolve = (\<lambda>p. case p of Path s \<Rightarrow>
        if s = ''/loop'' then Inl (RuntimeError (''Symlink loop from '' @ sq @ s @ sq))
        else if CHR 0x00 \<in> set s then Inl (ValueError ''embedded null byte'')
        else Inr (''/'' # path_segments s [])),
      open_repo = (\<lambda>s.
        if s = ''/repos/proj'' \<or> s = ''/repos/proj/sub'' then Inr (Repo s)
        else if s = ''/tmp/scratch'' \<or> s = ''/etc'' \<or> s = ''/allowed''
        then Inl (InvalidGitRepositoryError s)
        else Inl (NoSuchPathError s)),
      rev_parse = (\<lambda>r s.
        if s = ''main'' \<or> s = ''feature'' then Inr () else Inl (BadName s)),
      git_run = (\<lambda>r c args. Inr ''ok''),
      index_commit = (\<lambda>r m a. Inr demo_head_commit),
      index_reset = (\<lambda>r ps. Inr ()),
      iter_commits = (\<lambda>r k. Inr [demo_head_commit]),
      references = (\<lambda>r n.
        if n = ''main'' then Inr \<lparr>ref_name = n\<rparr> else Inl (IndexError n)),
      active_branch = (\<lambda>r. Inr \<lparr>ref_name = ''main''\<rparr>),
      create_head = (\<lambda>r n b. Inr ()),
      lookup_commit = (\<lambda>r rev.
        if rev = ''a1'' then Inr demo_root_commit
        else if rev = ''HEAD'' then Inr demo_head_commit
        else Inl (BadName rev)),
      diff_objects = (\<lambda>r a b.
        Inr [\<lparr>a_path = None, b_path = Some ''README'', diff = DiffStr ''+hello''\<rparr>]),
      repr_str = (\<lambda>s. sq @ s @ sq),
      decode_utf8 = (\<lambda>bs. Inl UnicodeDecodeError),
      is_server_session = True,
      has_roots_capability = True,
      list_roots = Inr [''/repos/proj'', ''/tmp/scratch'', ''/repos/proj/sub'']\<rparr>"

text \<open>The same world, with a session that advertises a root that does not exist.\<close>

definition demo_missing_root_world :: world where
  "demo_missing_root_world = demo_world\<lparr>list_roots := Inr [''/repos/proj'', ''/no/such'']\<rparr>"

text \<open>A commit request with a name and an empty email.\<close>

definition demo_commit_request :: arguments where
  "demo_commit_request =
     \<lparr>arg_repo_path = Some ''/repos/proj'', arg_paths = None, arg_context_lines = None,
      arg_ignore_whitespace = None, arg_target = None, arg_base = None, arg_merge_base = None,
      arg_message = Some ''fix'', arg_author_name = Some ''Ann'', arg_author_email = Some '''',
      arg_files = None,
      arg_max_count = None, arg_revision_range = None, arg_start_timestamp = None,
      arg_end_timestamp = None, arg_branch_name = None, arg_base_branch = None,
      arg_revision = None, arg_pattern = None, arg_ignore_case = None, arg_line_numbers = None,
      arg_branch_type = None, arg_contains = None, arg_not_contains = None\<rparr>"

text \<open>A status request for the repository at a path.\<close>

definition demo_status_request :: "string \<Rightarrow> arguments" where
  "demo_status_request p =
     \<lparr>arg_repo_path = Some p, arg_paths = None, arg_context_lines = None,
      arg_ignore_whitespace = None, arg_target = None, arg_base = None, arg_merge_base = None,
      arg_message = None, arg_author_name = None, arg_author_email = None,
      arg_files = None,
      arg_max_count = None, arg_revision_range = None, arg_start_timestamp = None,
      arg_end_timestamp = None, arg_branch_name = None, arg_base_branch = None,
      arg_revision = None, arg_pattern = None, arg_ignore_case = None, arg_line_numbers = None,
      arg_branch_type = None, arg_contains = None, arg_not_contains = None\<rparr>"

text \<open>A trace in which no repository is opened.\<close>

definition no_open :: "event list \<Rightarrow> bool" where
  "no_open t = (\<forall>p. OpenRepo p \<notin> set t)"

section \<open>Properties\<close>

declare str_nat.simps [simp del]

subsection \<open>The path guard\<close>

lemma relative_to_Some_iff:
  "(relative_to ps qs \<noteq> None) = (take (length qs) ps = qs)"
  by (induction ps qs rule: relative_to.induct) auto

lemma take_prefix_iff:
  "(take (length qs) ps = qs) = (ps = qs \<or> (\<exists>rest. rest \<noteq> [] \<and> ps = qs @ rest))"
proof
  assume h: "take (length qs) ps = qs"
  define rest where "rest = drop (length qs) ps"
  have eq: "ps = qs @ rest"
    using h append_take_drop_id [of "length qs" ps] by (simp add: rest_def)
  show "ps = qs \<or> (\<exists>rest. rest \<noteq> [] \<and> ps = qs @ rest)"
  proof (cases "rest = []")
    case True
    with eq show ?thesis by simp
  next
    case False
    with eq show ?thesis by blast
  qed
next
  assume "ps = qs \<or> (\<exists>rest. rest \<noteq> [] \<and> ps = qs @ rest)"
  then show "take (length qs) ps = qs" by auto
qed

lemma resolve_caught_iff:
  "resolve_caught e = (\<exists>m. e = OSError m \<or> e = RuntimeError m)"
  by (cases e) simp_all

text \<open>
  Claim C1, as amended. With no allowed root, \<open>validate_repo_path\<close> succeeds for every
  path, and resolves nothing. With an allowed root \<open>a\<close>, when both paths resolve (to
  the parts \<open>rp\<close> and \<open>ra\<close>), it succeeds exactly when \<open>rp\<close> is \<open>ra\<close> or \<open>ra\<close> followed
  by at least one further segment, and otherwise fails with the error "Repository path
  ... is outside the allowed repository ..." (the spec's PathOutsideAllowedRoot); since
  the comparison is on whole segments, \<^verbatim>\<open>/allowed-other\<close> is not inside \<^verbatim>\<open>/allowed\<close>.
  When resolving the candidate, or then the allowed root, raises \<^verbatim>\<open>OSError\<close> or
  \<^verbatim>\<open>RuntimeError\<close>, it fails with the error "Invalid path: ..." (the spec's
  InvalidPath); an exception of any other class is passed on as it is.
\<close>

theorem validate_repo_path_correct:
  "validate_repo_path w p None = Inr () \<and>
   (resolve w p = Inr rp \<and> resolve w a = Inr ra \<longrightarrow>
      validate_repo_path w p (Some a) =
        (if rp = ra \<or> (\<exists>rest. rest \<noteq> [] \<and> rp = ra @ rest) then Inr ()
         else Inl (outside_allowed w p a))) \<and>
   (resolve w p = Inl e \<or> (resolve w p = Inr rp \<and> resolve w a = Inl e) \<longrightarrow>
      validate_repo_path w p (Some a) =
        (if \<exists>m. e = OSError m \<or> e = RuntimeError m then Inl (invalid_path w p)
         else Inl e))"
proof -
  have a: "validate_repo_path w p None = Inr ()"
    by (simp add: validate_repo_path_def)
  have b: "validate_repo_path w p (Some a) =
        (if rp = ra \<or> (\<exists>rest. rest \<noteq> [] \<and> rp = ra @ rest) then Inr ()
         else Inl (outside_allowed w p a))"
    if r: "resolve w p = Inr rp" "resolve w a = Inr ra"
  proof (cases "relative_to rp ra")
    case None
    then have "\<not> (rp = ra \<or> (\<exists>rest. rest \<noteq> [] \<and> rp = ra @ rest))"
      using relative_to_Some_iff [of rp ra] take_prefix_iff [of ra rp] by simp
    with None r show ?thesis
      by (simp add: validate_repo_path_def resolve_both_def)
  next
    case (Some left)
    then have "rp = ra \<or> (\<exists>rest. rest \<noteq> [] \<and> rp = ra @ rest)"
      using relative_to_Some_iff [of rp ra] take_prefix_iff [of ra rp] by simp
    with Some r show ?thesis
      by (simp add: validate_repo_path_def resolve_both_def)
  qed
  have c: "validate_repo_path w p (Some a) =
        (if \<exists>m. e = OSError m \<or> e = RuntimeError m then Inl (invalid_path w p)
         else Inl e)"
    if "resolve w p = Inl e \<or> (resolve w p = Inr rp \<and> resolve w a = Inl e)"
  proof -
    from that have "resolve_both w p a = Inl e"
      by (auto simp: resolve_both_def)
    then show ?thesis
      using resolve_caught_iff [of e] by (simp add: validate_repo_path_def)
  qed
  from a b c show ?thesis by blast
qed

text \<open>
  The claim as first stated, "a path that cannot be resolved fails with InvalidPath",
  fails for a path with a null character: \<^verbatim>\<open>Path.resolve\<close> raises \<^verbatim>\<open>ValueError\<close>
  ("embedded null byte"), which the clause \<^verbatim>\<open>except (OSError, RuntimeError)\<close> does not
  catch, so that the request fails with that error and not with "Invalid path: ...".
\<close>

theorem validate_null_byte_counterexample:
  "resolve demo_world (Path demo_nul_path) = Inl (ValueError ''embedded null byte'') \<and>
   validate_repo_path demo_world (Path demo_nul_path) (Some (Path ''/allowed'')) =
     Inl (ValueError ''embedded null byte'') \<and>
   validate_repo_path demo_world (Path demo_nul_path) (Some (Path ''/allowed'')) \<noteq>
     Inl (invalid_path demo_world (Path demo_nul_path))"
  by (simp add: validate_repo_path_def resolve_both_def invalid_path_def demo_world_def
        demo_nul_path_def)

lemma demo_resolve:
  "resolve demo_world (Path ''/allowed'') = Inr [''/'', ''allowed'']"
  "resolve demo_world (Path ''/allowed/repo'') = Inr [''/'', ''allowed'', ''repo'']"
  "resolve demo_world (Path ''/allowed-other'') = Inr [''/'', ''allowed-other'']"
  "resolve demo_world (Path ''/repos/proj'') = Inr [''/'', ''repos'', ''proj'']"
  "resolve demo_world (Path ''/repos/proj/sub'') = Inr [''/'', ''repos'', ''proj'', ''sub'']"
  "resolve demo_world (Path ''/etc'') = Inr [''/'', ''etc'']"
  "resolve demo_world (Path ''/loop'') =
     Inl (RuntimeError (''Symlink loop from '' @ sq @ ''/loop'' @ sq))"
  by (simp_all add: demo_world_def)

theorem validate_repo_path_correct_witness:
  "validate_repo_path demo_world (Path ''/etc'') None = Inr () \<and>
   validate_repo_path demo_world (Path ''/allowed'') (Some (Path ''/allowed'')) = Inr () \<and>
   validate_repo_path demo_world (Path ''/allowed/repo'') (Some (Path ''/allowed'')) = Inr () \<and>
   validate_repo_path demo_world (Path ''/allowed-other'') (Some (Path ''/allowed'')) =
     Inl (ValueError (''Repository path '' @ sq @ ''/allowed-other'' @ sq @
            '' is outside the allowed repository '' @ sq @ ''/allowed'' @ sq)) \<and>
   validate_repo_path demo_world (Path ''/loop'') (Some (Path ''/allowed'')) =
     Inl (ValueError ''Invalid path: /loop'') \<and>
   validate_repo_path demo_world (Path ''/allowed/repo'') (Some (Path ''/loop'')) =
     Inl (ValueError ''Invalid path: /allowed/repo'')"
proof -
  have 1: "validate_repo_path demo_world (Path ''/etc'') None = Inr ()"
    using validate_repo_path_correct [of demo_world "Path ''/etc''"] by simp
  have 2: "validate_repo_path demo_world (Path ''/allowed'') (Some (Path ''/allowed'')) = Inr ()"
    using validate_repo_path_correct
      [of demo_world "Path ''/allowed''" "[''/'', ''allowed'']" "Path ''/allowed''"
          "[''/'', ''allowed'']"]
    by (simp add: demo_resolve)
  have 3: "validate_repo_path demo_world (Path ''/allowed/repo'') (Some (Path ''/allowed'')) = Inr ()"
    using validate_repo_path_correct
      [of demo_world "Path ''/allowed/repo''" "[''/'', ''allowed'', ''repo'']" "Path ''/allowed''"
          "[''/'', ''allowed'']"]
    by (simp add: demo_resolve)
  have 4: "validate_repo_path demo_world (Path ''/allowed-other'') (Some (Path ''/allowed'')) =
     Inl (ValueError (''Repository path '' @ sq @ ''/allowed-other'' @ sq @
            '' is outside the allowed repository '' @ sq @ ''/allowed'' @ sq))"
    using validate_repo_path_correct
      [of demo_world "Path ''/allowed-other''" "[''/'', ''allowed-other'']" "Path ''/allowed''"
          "[''/'', ''allowed'']"]
    by (simp add: demo_resolve outside_allowed_def demo_world_def)
  have 5: "validate_repo_path demo_world (Path ''/loop'') (Some (Path ''/allowed'')) =
     Inl (ValueError ''Invalid path: /loop'')"
    using validate_repo_path_correct
      [of demo_world "Path ''/loop''" _ "Path ''/allowed''" _
          "RuntimeError (''Symlink loop from '' @ sq @ ''/loop'' @ sq)"]
    by (simp add: demo_resolve invalid_path_def demo_world_def)
  have 6: "validate_repo_path demo_world (Path ''/allowed/repo'') (Some (Path ''/loop'')) =
     Inl (ValueError ''Invalid path: /allowed/repo'')"
    using validate_repo_path_correct
      [of demo_world "Path ''/allowed/repo''" "[''/'', ''allowed'', ''repo'']" "Path ''/loop''" _
          "RuntimeError (''Symlink loop from '' @ sq @ ''/loop'' @ sq)"]
    by (simp add: demo_resolve invalid_path_def demo_world_def)
  from 1 2 3 4 5 6 show ?thesis by blast
qed

subsection \<open>Flag injection\<close>

text \<open>
  Claim C3. A diff target, a diff base or a checkout target that begins with \<^verbatim>\<open>-\<close> makes
  the operation fail before it resolves a revision or runs git: the trace of calls is
  empty. The error is \<^verbatim>\<open>BadName\<close> with the message "Invalid target: ...", "Invalid
  base: ..." or "Invalid branch name: ..." followed by "cannot start with '-'" (the
  spec's InvalidArgument); when target and base both begin with \<^verbatim>\<open>-\<close>, the target is
  reported.
\<close>

theorem dash_rejected:
  "(startswith target ''-'' \<longrightarrow>
      git_diff w repo target base mb cl iw paths = (Inl (invalid_target target), [])) \<and>
   (base = Some b \<and> startswith b ''-'' \<longrightarrow>
      git_diff w repo target base mb cl iw paths =
        (Inl (if startswith target ''-'' then invalid_target target else invalid_base b), [])) \<and>
   (startswith branch_name ''-'' \<longrightarrow>
      git_checkout w repo branch_name = (Inl (invalid_branch_name branch_name), []))"
  by (cases b) (auto simp: git_diff_def git_checkout_def raise_err_def)

theorem dash_rejected_witness:
  "git_diff demo_world (Repo ''/repos/proj'') ''--output=/tmp/x'' None False 3 False None =
     (Inl (BadName (''Invalid target: '' @ sq @ ''--output=/tmp/x'' @ sq @
             '' - cannot start with '' @ sq @ ''-'' @ sq)), []) \<and>
   git_diff demo_world (Repo ''/repos/proj'') ''main'' (Some ''-p'') True 3 False None =
     (Inl (BadName (''Invalid base: '' @ sq @ ''-p'' @ sq @
             '' - cannot start with '' @ sq @ ''-'' @ sq)), []) \<and>
   git_checkout demo_world (Repo ''/repos/proj'') ''-f'' =
     (Inl (BadName (''Invalid branch name: '' @ sq @ ''-f'' @ sq @
             '' - cannot start with '' @ sq @ ''-'' @ sq)), [])"
  using dash_rejected
    [of "''--output=/tmp/x''" demo_world "Repo ''/repos/proj''" None False 3 False None
        "''-p''" "''-f''"]
    dash_rejected
    [of "''main''" demo_world "Repo ''/repos/proj''" "Some ''-p''" True 3 False None
        "''-p''" "''-f''"]
  by (simp add: invalid_target_def invalid_base_def invalid_branch_name_def)

subsection \<open>Sequencing\<close>

lemma then_run_Inl [simp]: "then_run (Inl e, t) f = (Inl e, t)"
  by (simp add: then_run_def)

lemma then_run_Inr [simp]: "then_run (Inr x, t) f = (fst (f x), t @ snd (f x))"
  by (simp add: then_run_def split: prod.splits)

lemma snd_then_run:
  "snd (then_run m f) = snd m @ (case fst m of Inl e \<Rightarrow> [] | Inr x \<Rightarrow> snd (f x))"
  by (cases m; cases "fst m") (auto simp: then_run_def split: prod.splits)

lemma snd_git_cmd [simp]: "snd (git_cmd w repo c args) = [Git c args]"
  by (simp add: git_cmd_def call_def)

lemma fst_git_cmd [simp]: "fst (git_cmd w repo c args) = git_run w repo c args"
  by (simp add: git_cmd_def call_def)

subsection \<open>Command construction\<close>

text \<open>
  Claim C4, as amended. The argument list of the diff operation starts with the
  context-line option, then \<^verbatim>\<open>-w\<close> when whitespace is ignored, then the revision
  selection: for a non-empty base \<open>b\<close>, the single range \<^verbatim>\<open>b...target\<close> in merge-base
  mode and the two arguments \<open>b\<close>, \<open>target\<close> otherwise; for a base that is unset or the
  empty string, \<open>target\<close> alone. A non-empty path filter follows a \<^verbatim>\<open>--\<close> separator. The
  only git command the operation runs is \<^verbatim>\<open>diff\<close> with this list.
\<close>

theorem diff_args_shape:
  "(b \<noteq> [] \<longrightarrow>
      diff_args target (Some b) True cl iw paths =
        unified cl # (if iw then [''-w''] else []) @ [b @ ''...'' @ target] @
        (case paths of None \<Rightarrow> [] | Some ps \<Rightarrow> if ps = [] then [] else ''--'' # ps)) \<and>
   (b \<noteq> [] \<longrightarrow>
      diff_args target (Some b) False cl iw paths =
        unified cl # (if iw then [''-w''] else []) @ [b, target] @
        (case paths of None \<Rightarrow> [] | Some ps \<Rightarrow> if ps = [] then [] else ''--'' # ps)) \<and>
   (base = None \<or> base = Some [] \<longrightarrow>
      diff_args target base mb cl iw paths =
        unified cl # (if iw then [''-w''] else []) @ [target] @
        (case paths of None \<Rightarrow> [] | Some ps \<Rightarrow> if ps = [] then [] else ''--'' # ps)) \<and>
   (\<forall>c args. Git c args \<in> set (snd (git_diff w repo target base mb cl iw paths)) \<longrightarrow>
      c = ''diff'' \<and> args = diff_args target base mb cl iw paths)"
proof -
  have 1: "\<forall>c args. Git c args \<in> set (snd (git_diff w repo target base mb cl iw paths)) \<longrightarrow>
      c = ''diff'' \<and> args = diff_args target base mb cl iw paths"
    by (auto simp: git_diff_def raise_err_def call_def ret_def snd_then_run
             split: option.splits sum.splits if_splits)
  have 2: "diff_args target (Some b) True cl iw paths =
        unified cl # (if iw then [''-w''] else []) @ [b @ ''...'' @ target] @
        (case paths of None \<Rightarrow> [] | Some ps \<Rightarrow> if ps = [] then [] else ''--'' # ps)"
    if "b \<noteq> []"
    using that by (simp add: diff_args_def extend_paths_def split: option.splits)
  have 3: "diff_args target (Some b) False cl iw paths =
        unified cl # (if iw then [''-w''] else []) @ [b, target] @
        (case paths of None \<Rightarrow> [] | Some ps \<Rightarrow> if ps = [] then [] else ''--'' # ps)"
    if "b \<noteq> []"
    using that by (simp add: diff_args_def extend_paths_def split: option.splits)
  have 4: "diff_args target base mb cl iw paths =
        unified cl # (if iw then [''-w''] else []) @ [target] @
        (case paths of None \<Rightarrow> [] | Some ps \<Rightarrow> if ps = [] then [] else ''--'' # ps)"
    if "base = None \<or> base = Some []"
    using that by (auto simp: diff_args_def extend_paths_def split: option.splits)
  from 1 2 3 4 show ?thesis by blast
qed

text \<open>
  The claim as first stated, "with base=B and merge_base=true the list contains the range
  B...T", fails for the empty string: the source tests \<^verbatim>\<open>if base:\<close>, so an empty base is
  treated as no base, and merge-base mode has no effect.
\<close>

theorem diff_args_empty_base_counterexample:
  "diff_args ''feature'' (Some '''') True 3 False None = [''--unified=3'', ''feature''] \<and>
   '''' @ ''...'' @ ''feature'' \<notin> set (diff_args ''feature'' (Some '''') True 3 False None) \<and>
   git_diff demo_world (Repo ''/repos/proj'') ''feature'' (Some '''') True 3 False None =
     (Inr ''ok'', [RevParse ''feature'', Git ''diff'' [''--unified=3'', ''feature'']])"
  by (simp add: diff_args_def extend_paths_def unified_def str_int_def str_nat.simps
        git_diff_def git_cmd_def call_def ret_def demo_world_def)

theorem diff_args_shape_witness:
  "diff_args ''feature'' (Some ''main'') True 3 False (Some [''src'', ''-x'']) =
     [''--unified=3'', ''main...feature'', ''--'', ''src'', ''-x''] \<and>
   diff_args ''feature'' (Some ''main'') False 5 True None =
     [''--unified=5'', ''-w'', ''main'', ''feature''] \<and>
   diff_args ''feature'' None True 3 False (Some []) = [''--unified=3'', ''feature''] \<and>
   snd (git_diff demo_world (Repo ''/repos/proj'') ''feature'' (Some ''main'') True 3 False None) =
     [RevParse ''feature'', RevParse ''main'', Git ''diff'' [''--unified=3'', ''main...feature'']]"
proof -
  have u: "unified 3 = ''--unified=3''" "unified 5 = ''--unified=5''"
    by (simp_all add: unified_def str_int_def str_nat.simps)
  have 1: "diff_args ''feature'' (Some ''main'') True 3 False (Some [''src'', ''-x'']) =
     [''--unified=3'', ''main...feature'', ''--'', ''src'', ''-x'']"
    using diff_args_shape [of "''main''" "''feature''" 3 False "Some [''src'', ''-x'']"]
    by (simp add: u)
  have 2: "diff_args ''feature'' (Some ''main'') False 5 True None =
     [''--unified=5'', ''-w'', ''main'', ''feature'']"
    using diff_args_shape [of "''main''" "''feature''" 5 True None]
    by (simp add: u)
  have 3: "diff_args ''feature'' None True 3 False (Some []) = [''--unified=3'', ''feature'']"
    using diff_args_shape [of "''main''" "''feature''" 3 False "Some []" None True]
    by (simp add: u)
  have 4: "snd (git_diff demo_world (Repo ''/repos/proj'') ''feature'' (Some ''main'') True 3 False None) =
     [RevParse ''feature'', RevParse ''main'', Git ''diff'' [''--unified=3'', ''main...feature'']]"
    using 1 diff_args_shape [of "''main''" "''feature''" 3 False None]
    by (simp add: git_diff_def git_cmd_def call_def ret_def demo_world_def u)
  from 1 2 3 4 show ?thesis by blast
qed

text \<open>
  Claim C5. The add operation runs one git command: \<^verbatim>\<open>add .\<close> for the list that is
  exactly \<^verbatim>\<open>["."]\<close>, and for every other list \<^verbatim>\<open>add\<close> with \<^verbatim>\<open>--\<close> first and all the
  entries after it, so that an entry beginning with \<^verbatim>\<open>-\<close> is a path. When the command
  succeeds the result is "Files staged successfully".
\<close>

theorem git_add_arguments:
  "snd (git_add w repo files) =
     [Git ''add'' (if files = [''.''] then [''.''] else ''--'' # files)] \<and>
   (\<forall>out. git_run w repo ''add'' (if files = [''.''] then [''.''] else ''--'' # files) = Inr out
      \<longrightarrow> fst (git_add w repo files) = Inr ''Files staged successfully'')"
  by (auto simp: git_add_def ret_def snd_then_run git_cmd_def call_def split: sum.splits)

theorem git_add_arguments_witness:
  "snd (git_add demo_world (Repo ''/repos/proj'') [''.'']) = [Git ''add'' [''.'']] \<and>
   snd (git_add demo_world (Repo ''/repos/proj'') [''a.txt'', ''-x'']) =
     [Git ''add'' [''--'', ''a.txt'', ''-x'']] \<and>
   snd (git_add demo_world (Repo ''/repos/proj'') [''.'', ''-x'']) =
     [Git ''add'' [''--'', ''.'', ''-x'']] \<and>
   fst (git_add demo_world (Repo ''/repos/proj'') [''a.txt'', ''-x'']) =
     Inr ''Files staged successfully''"
  using git_add_arguments [of demo_world "Repo ''/repos/proj''" "[''.'']"]
    git_add_arguments [of demo_world "Repo ''/repos/proj''" "[''a.txt'', ''-x'']"]
    git_add_arguments [of demo_world "Repo ''/repos/proj''" "[''.'', ''-x'']"]
  by (simp add: demo_world_def)

text \<open>
  Claim C6. For a branch type other than \<^verbatim>\<open>local\<close>, \<^verbatim>\<open>remote\<close> and \<^verbatim>\<open>all\<close>, the
  branch operation returns the text "Invalid branch type: " followed by the value, as a
  result and not as an error, and makes no call (its trace is empty); the dispatcher
  returns that text as the single part of the response.
\<close>

theorem invalid_branch_type:
  assumes "branch_type \<noteq> ''local''" and "branch_type \<noteq> ''remote''" and "branch_type \<noteq> ''all''"
  shows "git_branch w repo branch_type c nc =
           (Inr (''Invalid branch type: '' @ branch_type), []) \<and>
         (arg_branch_type a = Some branch_type \<longrightarrow>
            dispatch w repo ''git_branch'' a =
              (Inr [''Invalid branch type: '' @ branch_type], []))"
  using assms
  by (simp add: git_branch_def branch_flag_def ret_def dispatch_def get_default_def Let_def)

theorem invalid_branch_type_witness:
  "git_branch demo_world (Repo ''/repos/proj'') ''bogus'' None (Some ''a1'') =
     (Inr ''Invalid branch type: bogus'', []) \<and>
   dispatch demo_world (Repo ''/repos/proj'') ''git_branch''
     \<lparr>arg_repo_path = Some ''/repos/proj'', arg_paths = None, arg_context_lines = None,
      arg_ignore_whitespace = None, arg_target = None, arg_base = None, arg_merge_base = None,
      arg_message = None, arg_author_name = None, arg_author_email = None, arg_files = None,
      arg_max_count = None, arg_revision_range = None, arg_start_timestamp = None,
      arg_end_timestamp = None, arg_branch_name = None, arg_base_branch = None,
      arg_revision = None, arg_pattern = None, arg_ignore_case = None, arg_line_numbers = None,
      arg_branch_type = Some ''bogus'', arg_contains = None, arg_not_contains = None\<rparr> =
     (Inr [''Invalid branch type: bogus''], [])"
  using invalid_branch_type [of "''bogus''" demo_world "Repo ''/repos/proj''" None "Some ''a1''"
     "\<lparr>arg_repo_path = Some ''/repos/proj'', arg_paths = None, arg_context_lines = None,
      arg_ignore_whitespace = None, arg_target = None, arg_base = None, arg_merge_base = None,
      arg_message = None, arg_author_name = None, arg_author_email = None, arg_files = None,
      arg_max_count = None, arg_revision_range = None, arg_start_timestamp = None,
      arg_end_timestamp = None, arg_branch_name = None, arg_base_branch = None,
      arg_revision = None, arg_pattern = None, arg_ignore_case = None, arg_line_numbers = None,
      arg_branch_type = Some ''bogus'', arg_contains = None, arg_not_contains = None\<rparr>"]
  by simp

subsection \<open>The author of a commit\<close>

lemma snd_git_commit:
  "snd (git_commit w repo msg an ae) = [IndexCommit msg (commit_author an ae)]"
  by (simp add: git_commit_def Let_def snd_then_run call_def ret_def split: sum.splits)

lemma commit_author_truthy:
  "commit_author an ae = commit_author (truthy an) (truthy ae)"
  by (cases an; cases ae) (simp_all add: commit_author_def)

text \<open>
  Claim C7. The commit operation makes one call, \<^verbatim>\<open>repo.index.commit\<close>, with the message
  and the author it computed. That author is a custom one only when both the name and
  the email are given; when exactly one of them is given it is \<^verbatim>\<open>None\<close> (the identity
  git is configured with), and the operation behaves as if neither had been given.
\<close>

theorem commit_author_both_needed:
  "snd (git_commit w repo msg an ae) = [IndexCommit msg (commit_author an ae)] \<and>
   (\<forall>act. commit_author an ae = Some act \<longrightarrow>
      (\<exists>n e. an = Some n \<and> ae = Some e \<and> act = Actor n e)) \<and>
   ((an = None) \<noteq> (ae = None) \<longrightarrow>
      commit_author an ae = None \<and>
      git_commit w repo msg an ae = git_commit w repo msg None None)"
proof -
  have 1: "\<forall>act. commit_author an ae = Some act \<longrightarrow>
      (\<exists>n e. an = Some n \<and> ae = Some e \<and> act = Actor n e)"
    by (cases an; cases ae) (auto simp: commit_author_def split: if_splits)
  have 2: "commit_author an ae = None" if "(an = None) \<noteq> (ae = None)"
    using that by (cases an; cases ae) (auto simp: commit_author_def)
  have 3: "git_commit w repo msg an ae = git_commit w repo msg None None"
    if "(an = None) \<noteq> (ae = None)"
    using 2 [OF that] by (simp add: git_commit_def commit_author_def)
  from 1 2 3 snd_git_commit [of w repo msg an ae] show ?thesis by blast
qed

theorem commit_author_both_needed_witness:
  "snd (git_commit demo_world (Repo ''/repos/proj'') ''fix'' (Some ''Ann'') (Some ''ann@example.org'')) =
     [IndexCommit ''fix'' (Some (Actor ''Ann'' ''ann@example.org''))] \<and>
   snd (git_commit demo_world (Repo ''/repos/proj'') ''fix'' (Some ''Ann'') None) =
     [IndexCommit ''fix'' None] \<and>
   snd (git_commit demo_world (Repo ''/repos/proj'') ''fix'' None (Some ''ann@example.org'')) =
     [IndexCommit ''fix'' None]"
  using commit_author_both_needed
      [of demo_world "Repo ''/repos/proj''" "''fix''" "Some ''Ann''" "Some ''ann@example.org''",
       THEN conjunct1]
    commit_author_both_needed
      [of demo_world "Repo ''/repos/proj''" "''fix''" "Some ''Ann''" None, THEN conjunct1]
    commit_author_both_needed
      [of demo_world "Repo ''/repos/proj''" "''fix''" None "Some ''ann@example.org''",
       THEN conjunct1]
  by (simp add: commit_author_def)

text \<open>
  Claim C10. When both keys are present and the name or the email is the empty string, no
  custom author is built: \<^verbatim>\<open>repo.index.commit\<close> is called with \<^verbatim>\<open>author=None\<close>, and the
  operation and the whole request give what they give with both fields omitted.
\<close>

theorem empty_author_ignored:
  assumes "arg_author_name a = Some n" and "arg_author_email a = Some e"
    and "n = [] \<or> e = []"
  shows "commit_author (Some n) (Some e) = None \<and>
         snd (git_commit w repo msg (Some n) (Some e)) = [IndexCommit msg None] \<and>
         git_commit w repo msg (Some n) (Some e) = git_commit w repo msg None None \<and>
         call_tool w repository ''git_commit'' a =
           call_tool w repository ''git_commit''
             (a\<lparr>arg_author_name := None, arg_author_email := None\<rparr>)"
proof -
  have 1: "commit_author (Some n) (Some e) = None"
    using assms(3) by (auto simp: commit_author_def)
  have 2: "git_commit w repo msg (Some n) (Some e) = git_commit w repo msg None None" for repo msg
    using 1 by (simp add: git_commit_def commit_author_def)
  have 3: "snd (git_commit w repo msg (Some n) (Some e)) = [IndexCommit msg None]"
    using 1 snd_git_commit [of w repo msg "Some n" "Some e"] by simp
  have 4: "dispatch w r ''git_commit'' a =
           dispatch w r ''git_commit'' (a\<lparr>arg_author_name := None, arg_author_email := None\<rparr>)" for r
    using assms(1,2) 2 by (simp add: dispatch_def)
  have 5: "call_tool w repository ''git_commit'' a =
           call_tool w repository ''git_commit''
             (a\<lparr>arg_author_name := None, arg_author_email := None\<rparr>)"
    by (simp add: call_tool_def Let_def 4 cong: sum.case_cong)
  from 1 2 3 5 show ?thesis by blast
qed

lemma demo_calls:
  "path_str demo_world (Path s) = s"
  "open_repo demo_world ''/repos/proj'' = Inr (Repo ''/repos/proj'')"
  "index_commit demo_world r m au = Inr demo_head_commit"
  "git_run demo_world r c args = Inr ''ok''"
  by (simp_all add: demo_world_def)

theorem empty_author_ignored_witness:
  "snd (git_commit demo_world (Repo ''/repos/proj'') ''fix'' (Some ''Ann'') (Some '''')) =
     [IndexCommit ''fix'' None] \<and>
   call_tool demo_world (Some (Path ''/repos/proj'')) ''git_commit'' demo_commit_request =
     (Inr [''Changes committed successfully with hash c3''],
      [OpenRepo ''/repos/proj'', IndexCommit ''fix'' None])"
proof -
  have r: "arg_author_name demo_commit_request = Some ''Ann''"
    "arg_author_email demo_commit_request = Some ''''"
    by (simp_all add: demo_commit_request_def)
  have v: "validate_repo_path demo_world (Path ''/repos/proj'') (Some (Path ''/repos/proj'')) = Inr ()"
    by (simp add: validate_repo_path_def resolve_both_def demo_resolve)
  have "call_tool demo_world (Some (Path ''/repos/proj'')) ''git_commit''
          (demo_commit_request\<lparr>arg_author_name := None, arg_author_email := None\<rparr>) =
     (Inr [''Changes committed successfully with hash c3''],
      [OpenRepo ''/repos/proj'', IndexCommit ''fix'' None])"
    by (simp add: call_tool_def Let_def v subscript_def ret_def call_def dispatch_def git_commit_def
          commit_author_def demo_commit_request_def demo_calls demo_head_commit_def)
  then show ?thesis
    using empty_author_ignored
      [of demo_commit_request "''Ann''" "''''" demo_world "Repo ''/repos/proj''" "''fix''"
          "Some (Path ''/repos/proj'')", OF r]
    by (simp add: snd_git_commit commit_author_def)
qed

subsection \<open>Showing a commit\<close>





subsection \<open>The repository resolver\<close>

lemma by_roots_loop_result:
  assumes "\<forall>p\<in>set roots. \<forall>e. open_repo w p = Inl e \<longrightarrow> (\<exists>m. e = InvalidGitRepositoryError m)"
  shows "fst (by_roots_loop w roots acc) =
           Inr (acc @ filter (\<lambda>p. \<not> isl (open_repo w p)) roots)"
  using assms
proof (induction roots arbitrary: acc)
  case Nil
  then show ?case by (simp add: ret_def)
next
  case (Cons p roots)
  show ?case
  proof (cases "open_repo w p")
    case (Inl e)
    with Cons.prems obtain m where "e = InvalidGitRepositoryError m" by auto
    with Inl Cons show ?thesis by (simp add: call_def)
  next
    case (Inr r)
    with Cons show ?thesis by (simp add: call_def)
  qed
qed

lemma by_roots_loop_raises:
  assumes "\<forall>q\<in>set pre. \<forall>e'. open_repo w q = Inl e' \<longrightarrow> (\<exists>m. e' = InvalidGitRepositoryError m)"
    and "open_repo w p = Inl e" and "\<forall>m. e \<noteq> InvalidGitRepositoryError m"
  shows "fst (by_roots_loop w (pre @ p # post) acc) = Inl e"
  using assms(1)
proof (induction pre arbitrary: acc)
  case Nil
  from assms(2,3) show ?case
    by (cases e) (simp_all add: call_def)
next
  case (Cons q pre)
  show ?case
  proof (cases "open_repo w q")
    case (Inl e')
    with Cons.prems obtain m where "e' = InvalidGitRepositoryError m" by auto
    with Inl Cons show ?thesis by (simp add: call_def)
  next
    case (Inr r)
    with Cons show ?thesis by (simp add: call_def)
  qed
qed

text \<open>
  Claim C9, as amended. In a server session without the roots capability, the resolver
  returns the configured repository alone (or nothing), and asks nothing of the session.
  With the capability, when the session lists \<open>roots\<close> and every root either opens as
  a repository or is reported by git as an invalid repository
  (\<^verbatim>\<open>InvalidGitRepositoryError\<close>), the resolver returns the roots that open, in the order
  listed, followed by the configured repository, if any, as the last element; nothing
  is removed as a duplicate. When opening a root raises any other exception, the
  first such exception is the outcome of the resolver, and no list is returned.
\<close>

theorem list_repos_order:
  assumes "is_server_session w"
  shows "(\<not> has_roots_capability w \<longrightarrow>
            list_repos w repository =
              (Inr (case repository of None \<Rightarrow> [] | Some r \<Rightarrow> [path_str w r]), [])) \<and>
         (has_roots_capability w \<and> list_roots w = Inr roots \<and>
          (\<forall>p\<in>set roots. \<forall>e. open_repo w p = Inl e \<longrightarrow> (\<exists>m. e = InvalidGitRepositoryError m))
          \<longrightarrow>
            fst (list_repos w repository) =
              Inr (filter (\<lambda>p. \<not> isl (open_repo w p)) roots @
                   (case repository of None \<Rightarrow> [] | Some r \<Rightarrow> [path_str w r]))) \<and>
         (has_roots_capability w \<and> list_roots w = Inr (pre @ bad # post) \<and>
          (\<forall>p\<in>set pre. \<forall>e. open_repo w p = Inl e \<longrightarrow> (\<exists>m. e = InvalidGitRepositoryError m)) \<and>
          open_repo w bad = Inl err \<and> (\<forall>m. err \<noteq> InvalidGitRepositoryError m)
          \<longrightarrow>
            fst (list_repos w repository) = Inl err)"
proof -
  have 1: "list_repos w repository =
              (Inr (case repository of None \<Rightarrow> [] | Some r \<Rightarrow> [path_str w r]), [])"
    if "\<not> has_roots_capability w"
    using assms that
    by (simp add: list_repos_def by_roots_def by_commandline_def ret_def Let_def)
  have 2: "fst (list_repos w repository) =
              Inr (filter (\<lambda>p. \<not> isl (open_repo w p)) roots @
                   (case repository of None \<Rightarrow> [] | Some r \<Rightarrow> [path_str w r]))"
    if c: "has_roots_capability w" and l: "list_roots w = Inr roots"
      and v: "\<forall>p\<in>set roots. \<forall>e. open_repo w p = Inl e \<longrightarrow> (\<exists>m. e = InvalidGitRepositoryError m)"
  proof -
    have "fst (by_roots w) = Inr (filter (\<lambda>p. \<not> isl (open_repo w p)) roots)"
      using assms c l by_roots_loop_result [OF v, of "[]"]
      by (simp add: by_roots_def call_def)
    then show ?thesis
      by (cases "by_roots w") (simp add: list_repos_def by_commandline_def ret_def Let_def)
  qed
  have 3: "fst (list_repos w repository) = Inl err"
    if c: "has_roots_capability w" and l: "list_roots w = Inr (pre @ bad # post)"
      and v: "\<forall>p\<in>set pre. \<forall>e. open_repo w p = Inl e \<longrightarrow> (\<exists>m. e = InvalidGitRepositoryError m)"
      and o: "open_repo w bad = Inl err" and n: "\<forall>m. err \<noteq> InvalidGitRepositoryError m"
  proof -
    have "fst (by_roots w) = Inl err"
      using assms c l by_roots_loop_raises [OF v o n, of post "[]"]
      by (simp add: by_roots_def call_def)
    then show ?thesis
      by (cases "by_roots w") (simp add: list_repos_def Let_def)
  qed
  from 1 2 3 show ?thesis by blast
qed

text \<open>
  The claim as first stated, "invalid ones silently excluded", fails for an advertised
  root that does not exist: \<^verbatim>\<open>git.Repo\<close> raises \<^verbatim>\<open>NoSuchPathError\<close>, which \<^verbatim>\<open>by_roots\<close>
  does not catch, so that the resolver fails and returns no list, where the claim gives
  the list of the one valid root.
\<close>

theorem list_repos_missing_root_counterexample:
  "list_roots demo_missing_root_world = Inr [''/repos/proj'', ''/no/such''] \<and>
   open_repo demo_missing_root_world ''/repos/proj'' = Inr (Repo ''/repos/proj'') \<and>
   open_repo demo_missing_root_world ''/no/such'' = Inl (NoSuchPathError ''/no/such'') \<and>
   fst (list_repos demo_missing_root_world None) = Inl (NoSuchPathError ''/no/such'') \<and>
   fst (list_repos demo_missing_root_world None) \<noteq> Inr [''/repos/proj'']"
  by (simp add: list_repos_def by_roots_def by_commandline_def call_def ret_def
        demo_missing_root_world_def demo_world_def)

theorem list_repos_order_witness:
  "fst (list_repos demo_world (Some (Path ''/repos/proj''))) =
     Inr [''/repos/proj'', ''/repos/proj/sub'', ''/repos/proj''] \<and>
   fst (list_repos demo_world None) = Inr [''/repos/proj'', ''/repos/proj/sub''] \<and>
   list_repos (demo_world\<lparr>has_roots_capability := False\<rparr>) (Some (Path ''/repos/proj'')) =
     (Inr [''/repos/proj''], []) \<and>
   fst (list_repos demo_missing_root_world (Some (Path ''/repos/proj''))) =
     Inl (NoSuchPathError ''/no/such'')"
proof -
  have s: "is_server_session demo_world"
    "is_server_session (demo_world\<lparr>has_roots_capability := False\<rparr>)"
    "is_server_session demo_missing_root_world"
    by (simp_all add: demo_world_def demo_missing_root_world_def)
  have c: "has_roots_capability demo_world"
    "\<not> has_roots_capability (demo_world\<lparr>has_roots_capability := False\<rparr>)"
    "has_roots_capability demo_missing_root_world"
    by (simp_all add: demo_world_def demo_missing_root_world_def)
  have l: "list_roots demo_world = Inr [''/repos/proj'', ''/tmp/scratch'', ''/repos/proj/sub'']"
    "list_roots demo_missing_root_world = Inr ([''/repos/proj''] @ ''/no/such'' # [])"
    by (simp_all add: demo_world_def demo_missing_root_world_def)
  have o: "open_repo demo_world ''/repos/proj'' = Inr (Repo ''/repos/proj'')"
    "open_repo demo_world ''/tmp/scratch'' = Inl (InvalidGitRepositoryError ''/tmp/scratch'')"
    "open_repo demo_world ''/repos/proj/sub'' = Inr (Repo ''/repos/proj/sub'')"
    "open_repo demo_missing_root_world ''/repos/proj'' = Inr (Repo ''/repos/proj'')"
    "open_repo demo_missing_root_world ''/no/such'' = Inl (NoSuchPathError ''/no/such'')"
    by (simp_all add: demo_world_def demo_missing_root_world_def)
  have p: "path_str demo_world (Path x) = x"
    "path_str (demo_world\<lparr>has_roots_capability := False\<rparr>) (Path x) = x" for x
    by (simp_all add: demo_world_def)
  have 1: "fst (list_repos demo_world (Some (Path ''/repos/proj''))) =
     Inr [''/repos/proj'', ''/repos/proj/sub'', ''/repos/proj'']"
    using list_repos_order [OF s(1), of "Some (Path ''/repos/proj'')"
        "[''/repos/proj'', ''/tmp/scratch'', ''/repos/proj/sub'']"] c(1) l(1)
    by (simp add: o p)
  have 2: "fst (list_repos demo_world None) = Inr [''/repos/proj'', ''/repos/proj/sub'']"
    using list_repos_order [OF s(1), of None
        "[''/repos/proj'', ''/tmp/scratch'', ''/repos/proj/sub'']"] c(1) l(1)
    by (simp add: o)
  have 3: "list_repos (demo_world\<lparr>has_roots_capability := False\<rparr>) (Some (Path ''/repos/proj'')) =
     (Inr [''/repos/proj''], [])"
    using list_repos_order [OF s(2), of "Some (Path ''/repos/proj'')"] c(2)
    by (simp add: p)
  have 4: "fst (list_repos demo_missing_root_world (Some (Path ''/repos/proj''))) =
     Inl (NoSuchPathError ''/no/such'')"
    using list_repos_order [OF s(3), of "Some (Path ''/repos/proj'')" _ "[''/repos/proj'']"
        "''/no/such''" "[]" "NoSuchPathError ''/no/such''"] c(3) l(2)
    by (simp add: o)
  from 1 2 3 4 show ?thesis by blast
qed

subsection \<open>The dispatcher\<close>

lemma no_open_simps [simp]:
  "no_open []"
  "no_open (ev # t) = ((\<forall>p. ev \<noteq> OpenRepo p) \<and> no_open t)"
  "no_open (t @ t') = (no_open t \<and> no_open t')"
  by (auto simp: no_open_def)

lemma no_open_then_run:
  assumes "no_open (snd m)" and "\<And>x. no_open (snd (f x))"
  shows "no_open (snd (then_run m f))"
  using assms by (cases m; cases "fst m") (auto simp: snd_then_run)

lemma no_open_basic [simp]:
  "no_open (snd (ret x))"
  "no_open (snd (raise_err e))"
  "no_open (snd (git_cmd w repo c args))"
  "no_open (snd (subscript k v))"
  by (simp_all add: ret_def raise_err_def subscript_def split: option.splits)

lemma no_open_call [simp]:
  "no_open (snd (call ev r)) = (\<forall>p. ev \<noteq> OpenRepo p)"
  by (simp add: call_def)

lemma no_open_git_status: "no_open (snd (git_status w repo paths))"
  by (simp add: git_status_def)

lemma no_open_git_diff_unstaged: "no_open (snd (git_diff_unstaged w repo cl iw paths))"
  by (simp add: git_diff_unstaged_def)

lemma no_open_git_diff_staged: "no_open (snd (git_diff_staged w repo cl iw paths))"
  by (simp add: git_diff_staged_def)

lemma no_open_git_diff: "no_open (snd (git_diff w repo target base mb cl iw paths))"
  by (auto simp: git_diff_def intro!: no_open_then_run split: option.splits)

lemma no_open_git_commit: "no_open (snd (git_commit w repo msg an ae))"
  by (simp add: snd_git_commit)

lemma no_open_git_add: "no_open (snd (git_add w repo files))"
  by (auto simp: git_add_def intro!: no_open_then_run)

lemma no_open_git_reset: "no_open (snd (git_reset w repo paths))"
  by (auto simp: git_reset_def intro!: no_open_then_run split: option.splits)

lemma no_open_git_log: "no_open (snd (git_log w repo mc rr paths st en))"
  by (auto simp: git_log_def Let_def intro!: no_open_then_run)

lemma no_open_git_create_branch: "no_open (snd (git_create_branch w repo bn bb))"
  by (auto simp: git_create_branch_def intro!: no_open_then_run split: option.splits)

lemma no_open_git_checkout: "no_open (snd (git_checkout w repo bn))"
  by (auto simp: git_checkout_def intro!: no_open_then_run)

lemma no_open_git_show: "no_open (snd (git_show w repo revision))"
  by (auto simp: git_show_def intro!: no_open_then_run split: sum.splits prod.splits)

lemma no_open_git_grep: "no_open (snd (git_grep w repo pat rv paths ic ln))"
  by (simp add: git_grep_def)

lemma no_open_git_branch: "no_open (snd (git_branch w repo bt c nc))"
  by (simp add: git_branch_def Let_def split: option.splits)

lemmas no_open_ops =
  no_open_git_status no_open_git_diff_unstaged no_open_git_diff_staged no_open_git_diff
  no_open_git_commit no_open_git_add no_open_git_reset no_open_git_log
  no_open_git_create_branch no_open_git_checkout no_open_git_show no_open_git_grep
  no_open_git_branch

lemma no_open_then_run_all:
  "no_open (snd m) \<Longrightarrow> \<forall>x. no_open (snd (f x)) \<Longrightarrow> no_open (snd (then_run m f))"
  by (simp add: no_open_then_run)

lemma no_open_dispatch: "no_open (snd (dispatch w repo name a))"
  by (simp add: dispatch_def no_open_then_run_all no_open_ops)

text \<open>
  Claim C2. When the path guard rejects the \<^verbatim>\<open>repo_path\<close> of a request, \<open>call_tool\<close>
  fails with the guard's error and has made no call: no repository was opened and no
  command was run. In every case the trace of a request is either empty, or the path
  passed the guard and the trace starts with the opening of the repository at that
  path, with no other repository opened after it.
\<close>

theorem guard_before_open:
  "(\<forall>s e. arg_repo_path a = Some s \<and> validate_repo_path w (Path s) repository = Inl e \<longrightarrow>
      call_tool w repository name a = (Inl e, [])) \<and>
   (snd (call_tool w repository name a) = [] \<or>
    (\<exists>s t. arg_repo_path a = Some s \<and>
       validate_repo_path w (Path s) repository = Inr () \<and>
       snd (call_tool w repository name a) = OpenRepo (path_str w (Path s)) # t \<and>
       (\<forall>p. OpenRepo p \<notin> set t)))"
proof -
  have 1: "call_tool w repository name a = (Inl e, [])"
    if "arg_repo_path a = Some s" "validate_repo_path w (Path s) repository = Inl e" for s e
    using that by (simp add: call_tool_def subscript_def ret_def raise_err_def Let_def)
  have 2: "snd (call_tool w repository name a) = [] \<or>
    (\<exists>s t. arg_repo_path a = Some s \<and>
       validate_repo_path w (Path s) repository = Inr () \<and>
       snd (call_tool w repository name a) = OpenRepo (path_str w (Path s)) # t \<and>
       (\<forall>p. OpenRepo p \<notin> set t))"
  proof (cases "arg_repo_path a")
    case None
    then show ?thesis
      by (simp add: call_tool_def subscript_def raise_err_def)
  next
    case (Some s)
    show ?thesis
    proof (cases "validate_repo_path w (Path s) repository")
      case (Inl e)
      with Some 1 show ?thesis by simp
    next
      case (Inr u)
      define t where
        "t = (case open_repo w (path_str w (Path s)) of
                Inl e \<Rightarrow> [] | Inr repo \<Rightarrow> snd (dispatch w repo name a))"
      have "snd (call_tool w repository name a) = OpenRepo (path_str w (Path s)) # t"
        using Some Inr
        by (simp add: call_tool_def subscript_def ret_def Let_def call_def snd_then_run t_def)
      moreover have "\<forall>p. OpenRepo p \<notin> set t"
        using no_open_dispatch [of w _ name a]
        by (auto simp: t_def no_open_def split: sum.splits)
      ultimately show ?thesis
        using Some Inr by simp
    qed
  qed
  from 1 2 show ?thesis by blast
qed

theorem guard_before_open_witness:
  "call_tool demo_world (Some (Path ''/repos/proj'')) ''git_status'' (demo_status_request ''/etc'') =
     (Inl (ValueError (''Repository path '' @ sq @ ''/etc'' @ sq @
             '' is outside the allowed repository '' @ sq @ ''/repos/proj'' @ sq)), []) \<and>
   call_tool demo_world (Some (Path ''/repos/proj'')) ''git_status''
       (demo_status_request ''/repos/proj/sub'') =
     (Inr [''Repository status:'' @ nl @ ''ok''],
      [OpenRepo ''/repos/proj/sub'', Git ''status'' []])"
proof -
  have a: "arg_repo_path (demo_status_request p) = Some p" "arg_paths (demo_status_request p) = None" for p
    by (simp_all add: demo_status_request_def)
  have v1: "validate_repo_path demo_world (Path ''/etc'') (Some (Path ''/repos/proj'')) =
     Inl (ValueError (''Repository path '' @ sq @ ''/etc'' @ sq @
             '' is outside the allowed repository '' @ sq @ ''/repos/proj'' @ sq))"
    by (simp add: validate_repo_path_def resolve_both_def demo_resolve outside_allowed_def demo_calls)
  have v2: "validate_repo_path demo_world (Path ''/repos/proj/sub'') (Some (Path ''/repos/proj'')) = Inr ()"
    by (simp add: validate_repo_path_def resolve_both_def demo_resolve)
  have o: "open_repo demo_world ''/repos/proj/sub'' = Inr (Repo ''/repos/proj/sub'')"
    by (simp add: demo_world_def)
  have 1: "call_tool demo_world (Some (Path ''/repos/proj'')) ''git_status'' (demo_status_request ''/etc'') =
     (Inl (ValueError (''Repository path '' @ sq @ ''/etc'' @ sq @
             '' is outside the allowed repository '' @ sq @ ''/repos/proj'' @ sq)), [])"
    using guard_before_open
      [of "demo_status_request ''/etc''" demo_world "Some (Path ''/repos/proj'')" "''git_status''"]
      a v1
    by simp
  have 2: "call_tool demo_world (Some (Path ''/repos/proj'')) ''git_status''
       (demo_status_request ''/repos/proj/sub'') =
     (Inr [''Repository status:'' @ nl @ ''ok''],
      [OpenRepo ''/repos/proj/sub'', Git ''status'' []])"
    by (simp add: call_tool_def Let_def a v2 o subscript_def ret_def call_def dispatch_def
          git_status_def git_cmd_def extend_paths_def demo_calls)
  from 1 2 show ?thesis by blast
qed

end
